theory Spec2Isabelle
  imports Complex_Main
begin

section \<open>Data model\<close>

text \<open>
  Dates (\<open>datetime.date\<close>) are day numbers. The tables of the relational store are lists in
  insertion order; \<open>query(...).filter(...).first()\<close> is the first row that satisfies the
  filter. Status columns are plain strings, as in the models (\<open>Column(String(50))\<close>).
\<close>

type_synonym date = int

record room =
  room_number :: string
  room_type :: string
  amount :: int
  status :: string

record reservation =
  res_id :: nat
  res_room_number :: string
  guest_name :: string
  arrival_date :: date
  departure_date :: date
  res_status :: string

subsection \<open>Python floats\<close>

text \<open>
  Amounts of money are Python floats (\<open>amount_paid: float\<close> in the schema), that is IEEE 754
  binary64 numbers. \<open>Finite x\<close> is the double whose value is the rational \<open>x\<close>; the two
  zeros are not told apart (they compare equal, and no branch of the handlers separates
  them). The result of an addition is the exact sum rounded to the nearest double, ties to
  the even significand; a sum beyond the largest double is an infinity.
\<close>

datatype pyfloat = Finite rat | PosInf | NegInf | NaN

function bit_length :: "int \<Rightarrow> int" where
  "bit_length n = (if n \<le> 0 then 0 else 1 + bit_length (n div 2))"
  by pat_completeness auto
termination
  by (relation "measure nat") auto

declare bit_length.simps [simp del]

text \<open>\<open>ilog2 x\<close> is the exponent \<open>e\<close> with \<open>2^e \<le> x < 2^(e+1)\<close>, for \<open>x > 0\<close>.\<close>

definition ilog2 :: "rat \<Rightarrow> int" where
  "ilog2 x = (if x \<ge> 1 then bit_length \<lfloor>x\<rfloor> - 1 else - bit_length (\<lceil>1 / x\<rceil> - 1))"

definition round_half_even :: "rat \<Rightarrow> int" where
  "round_half_even x =
     (let f = \<lfloor>x\<rfloor>; r = x - of_int f
      in if r < 1 / 2 then f else if r > 1 / 2 then f + 1 else if even f then f else f + 1)"

definition pow2 :: "int \<Rightarrow> rat" where
  "pow2 e = (if e \<ge> 0 then 2 ^ nat e else 1 / 2 ^ nat (- e))"

text \<open>
  Rounding to binary64: 53 significant bits, so the spacing of the doubles around \<open>x\<close> is
  \<open>2^(e - 52)\<close>, and \<open>2^(-1074)\<close> in the subnormal range.
\<close>

definition round64 :: "rat \<Rightarrow> pyfloat" where
  "round64 x =
     (if x = 0 then Finite 0
      else
        let q = max (ilog2 \<bar>x\<bar> - 52) (- 1074);
            y = of_int (round_half_even (x / pow2 q)) * pow2 q
        in if \<bar>y\<bar> \<ge> pow2 1024 then (if x > 0 then PosInf else NegInf) else Finite y)"

fun fadd :: "pyfloat \<Rightarrow> pyfloat \<Rightarrow> pyfloat" where
  "fadd (Finite a) (Finite b) = round64 (a + b)"
| "fadd NaN y = NaN"
| "fadd x NaN = NaN"
| "fadd PosInf NegInf = NaN"
| "fadd NegInf PosInf = NaN"
| "fadd PosInf y = PosInf"
| "fadd x PosInf = PosInf"
| "fadd NegInf y = NegInf"
| "fadd x NegInf = NegInf"

fun fneg :: "pyfloat \<Rightarrow> pyfloat" where
  "fneg (Finite a) = Finite (- a)"
| "fneg PosInf = NegInf"
| "fneg NegInf = PosInf"
| "fneg NaN = NaN"

definition fsub :: "pyfloat \<Rightarrow> pyfloat \<Rightarrow> pyfloat" where
  "fsub x y = fadd x (fneg y)"

text \<open>\<open>x > y\<close>; every comparison with a NaN is false.\<close>

fun fgt :: "pyfloat \<Rightarrow> pyfloat \<Rightarrow> bool" where
  "fgt (Finite a) (Finite b) = (a > b)"
| "fgt NaN y = False"
| "fgt x NaN = False"
| "fgt PosInf PosInf = False"
| "fgt PosInf y = True"
| "fgt x PosInf = False"
| "fgt NegInf y = False"
| "fgt x NegInf = True"

text \<open>Python's \<open>max(a, b)\<close>: the first argument, unless the second is greater.\<close>

definition pymax :: "pyfloat \<Rightarrow> pyfloat \<Rightarrow> pyfloat" where
  "pymax a b = (if fgt b a then b else a)"

text \<open>
  The conversion of an \<open>int\<close> operand in \<open>int - float\<close>: the nearest double, and
  \<open>OverflowError\<close> (here \<open>None\<close>) when the integer is beyond the doubles.
\<close>

definition float_of_int :: "int \<Rightarrow> pyfloat option" where
  "float_of_int n = (case round64 (of_int n) of Finite x \<Rightarrow> Some (Finite x) | _ \<Rightarrow> None)"

text \<open>
  Python's \<open>sum\<close> over floats: the running total starts at 0 and the terms are added
  from left to right.
\<close>

definition pysum :: "pyfloat list \<Rightarrow> pyfloat" where
  "pysum xs = foldl fadd (Finite 0) xs"

subsection \<open>Bookings and payments\<close>

text \<open>
  \<open>Booking\<close> (\<open>app/bookings/models.py\<close>) is not among the sources; the record has the
  columns the payment handlers read and write.
\<close>

record booking =
  bk_id :: nat
  bk_room_number :: string
  number_of_days :: int
  bk_status :: string
  payment_status :: string
  bk_booking_cost :: "pyfloat option"

text \<open>A \<open>datetime\<close> is an instant, with or without \<open>tzinfo\<close>.\<close>

datatype datetime = Naive int | Aware int

record payment =
  pay_id :: nat
  pay_booking_id :: nat
  amount_paid :: pyfloat
  discount_allowed :: "pyfloat option"
  payment_method :: string
  payment_date :: datetime
  balance_due :: pyfloat
  pay_status :: string
  pay_booking_cost :: "pyfloat option"

record database =
  rooms :: "room list"
  reservations :: "reservation list"
  bookings :: "booking list"
  payments :: "payment list"

text \<open>The authenticated caller (\<open>UserDisplaySchema\<close>).\<close>

record user =
  username :: string
  role :: string

text \<open>The request bodies \<open>ReservationSchema\<close> and \<open>CheckInSchema\<close> (the optional
  \<open>status\<close> field of \<open>ReservationSchema\<close> is never read by the handlers).\<close>

record reservation_schema =
  rq_room_number :: string
  rq_guest_name :: string
  rq_arrival_date :: date
  rq_departure_date :: date

text \<open>
  Every \<open>HTTPException\<close> a handler raises is one constructor; the arguments are the
  values its \<open>detail\<close> message is formatted from. \<open>status_code\<close> gives the HTTP status.
\<close>

datatype error =
    RoomNumberRequired
  | RoomAndGuestRequired
  | ArrivalAfterDeparture
  | NotFutureDate
  | RoomNotFound
  | AlreadyCheckedIn string date date
  | AlreadyOccupiedOrReserved string date date
  | UnderMaintenance string
  | NotAvailableForReservation string
  | ReservationAlreadyExists
  | NotAvailableForCheckIn
  | NotCheckedIn string
  | NoReservationForRoom
  | NoReservationForGuest string string
  | CancelNotPermitted
  | DeleteNotPermitted
  | ServerError
  | DeleteServerError
  | PaymentDateWithoutTimezone
  | PaymentDateInFuture datetime
  | BookingNotFound nat
  | RoomDoesNotExist string
  | BookingNotPayable nat
  | PaymentExceedsTotalDue int
  | UnhandledOverflowError
  | CreatePaymentError
  | InsufficientPermissions
  | PaymentNotFound nat
  | VoidPaymentError

fun status_code :: "error \<Rightarrow> nat" where
  "status_code RoomNotFound = 404"
| "status_code NoReservationForRoom = 404"
| "status_code (NoReservationForGuest n g) = 404"
| "status_code CancelNotPermitted = 403"
| "status_code DeleteNotPermitted = 403"
| "status_code ServerError = 500"
| "status_code DeleteServerError = 500"
| "status_code (BookingNotFound b) = 404"
| "status_code (RoomDoesNotExist n) = 404"
| "status_code CreatePaymentError = 500"
| "status_code UnhandledOverflowError = 500"
| "status_code InsufficientPermissions = 403"
| "status_code (PaymentNotFound p) = 404"
| "status_code VoidPaymentError = 500"
| "status_code e = 400"

section \<open>The store\<close>

text \<open>
  A handler commits several times. \<open>faults\<close> says which of its commits raise: commit
  number \<open>k\<close> (from 0) fails when the list has a \<open>True\<close> at position \<open>k\<close>. A failed commit
  is caught by the handler's \<open>except\<close>, which rolls back the open transaction: the store
  then holds what the earlier commits of the handler wrote.
\<close>

definition commit_fails :: "bool list \<Rightarrow> nat \<Rightarrow> bool" where
  "commit_fails faults k = (k < length faults \<and> faults ! k)"

definition get_room :: "database \<Rightarrow> string \<Rightarrow> room option" where
  "get_room db n = find (\<lambda>r. room_number r = n) (rooms db)"

text \<open>An attribute assignment on, and \<open>db.delete\<close> of, the row that \<open>first()\<close> returned.\<close>

fun update_first :: "('a \<Rightarrow> bool) \<Rightarrow> ('a \<Rightarrow> 'a) \<Rightarrow> 'a list \<Rightarrow> 'a list" where
  "update_first P f [] = []"
| "update_first P f (x # xs) = (if P x then f x # xs else x # update_first P f xs)"

fun delete_first :: "('a \<Rightarrow> bool) \<Rightarrow> 'a list \<Rightarrow> 'a list" where
  "delete_first P [] = []"
| "delete_first P (x # xs) = (if P x then xs else x # delete_first P xs)"

definition set_room_status :: "string \<Rightarrow> string \<Rightarrow> database \<Rightarrow> database" where
  "set_room_status n s db =
     db\<lparr>rooms := update_first (\<lambda>r. room_number r = n) (\<lambda>r. r\<lparr>status := s\<rparr>) (rooms db)\<rparr>"

text \<open>The autoincrement primary key of a new row.\<close>

definition next_res_id :: "database \<Rightarrow> nat" where
  "next_res_id db = Suc (foldr max (map res_id (reservations db)) 0)"

definition add_reservation :: "reservation \<Rightarrow> database \<Rightarrow> database" where
  "add_reservation r db = db\<lparr>reservations := reservations db @ [r]\<rparr>"

section \<open>Availability checker\<close>

definition overlaps :: "date \<Rightarrow> date \<Rightarrow> date \<Rightarrow> date \<Rightarrow> bool" where
  "overlaps a1 d1 a2 d2 = (a1 \<le> d2 \<and> a2 \<le> d1)"

text \<open>
  Modelled from the spec: \<open>check_overlapping_check_in\<close> and
  \<open>check_overlapping_reservations\<close> are imported from \<open>app/reservations/crud.py\<close>, which is
  not among the sources. Section 4.1 of the specification gives their contract: the query
  runs against the active check-ins and against the active reservations of the room, two
  intervals conflict iff \<open>a1 \<le> d2\<close> and \<open>a2 \<le> d1\<close>, and the conflicting stay is returned.
\<close>

definition check_overlapping_check_in ::
  "database \<Rightarrow> string \<Rightarrow> date \<Rightarrow> date \<Rightarrow> reservation option" where
  "check_overlapping_check_in db n a d =
     find (\<lambda>r. res_room_number r = n \<and> res_status r = ''checked-in'' \<and>
                overlaps (arrival_date r) (departure_date r) a d) (reservations db)"

definition check_overlapping_reservations ::
  "database \<Rightarrow> string \<Rightarrow> date \<Rightarrow> date \<Rightarrow> reservation option" where
  "check_overlapping_reservations db n a d =
     find (\<lambda>r. res_room_number r = n \<and> res_status r = ''reserved'' \<and>
                overlaps (arrival_date r) (departure_date r) a d) (reservations db)"

section \<open>Stay lifecycle: \<open>app/reservations/router.py\<close>\<close>

definition new_reservation :: "database \<Rightarrow> reservation_schema \<Rightarrow> string \<Rightarrow> reservation" where
  "new_reservation db rq st =
     \<lparr>res_id = next_res_id db, res_room_number = rq_room_number rq,
      guest_name = rq_guest_name rq, arrival_date = rq_arrival_date rq,
      departure_date = rq_departure_date rq, res_status = st\<rparr>"

text \<open>
  \<open>create_reservation\<close> of the reservations router. \<open>today\<close> is \<open>date.today()\<close>. The
  result is the raised error or the new reservation, and the store as the handler leaves it.
\<close>

definition create_reservation ::
  "bool list \<Rightarrow> date \<Rightarrow> reservation_schema \<Rightarrow> database \<Rightarrow> (error + reservation) \<times> database" where
  "create_reservation faults today rq db =
     (if rq_room_number rq = [] then (Inl RoomNumberRequired, db)
      else if rq_arrival_date rq > rq_departure_date rq then (Inl ArrivalAfterDeparture, db)
      else if rq_arrival_date rq \<le> today then (Inl NotFutureDate, db)
      else case get_room db (rq_room_number rq) of
        None \<Rightarrow> (Inl RoomNotFound, db)
      | Some room \<Rightarrow>
         (case check_overlapping_check_in db (rq_room_number rq)
                 (rq_arrival_date rq) (rq_departure_date rq) of
            Some c \<Rightarrow>
              (Inl (AlreadyCheckedIn (rq_room_number rq) (arrival_date c) (departure_date c)), db)
          | None \<Rightarrow>
             (case check_overlapping_reservations db (rq_room_number rq)
                     (rq_arrival_date rq) (rq_departure_date rq) of
                Some c \<Rightarrow>
                  (Inl (AlreadyOccupiedOrReserved (rq_room_number rq)
                          (arrival_date c) (departure_date c)), db)
              | None \<Rightarrow>
                  if status room = ''maintenance''
                  then (Inl (UnderMaintenance (rq_room_number rq)), db)
                  else
                    let nr = new_reservation db rq ''reserved'';
                        db1 = add_reservation nr db
                    in if commit_fails faults 0 then (Inl ServerError, db)
                       else
                         let db2 = set_room_status (rq_room_number rq) ''reserved'' db1
                         in if commit_fails faults 1 then (Inl ServerError, db1)
                            else (Inr nr, db2))))"

text \<open>
  \<open>delete_reservation\<close> of the reservations router. The \<open>HTTPException\<close>s raised inside
  the \<open>try\<close> pass through \<open>except SQLAlchemyError\<close>. The result is the \<open>room_status\<close> of
  the response.
\<close>

definition delete_reservation ::
  "bool list \<Rightarrow> user \<Rightarrow> string \<Rightarrow> string \<Rightarrow> database \<Rightarrow> (error + string) \<times> database" where
  "delete_reservation faults current_user n g db =
     (case find (\<lambda>r. res_room_number r = n \<and> guest_name r = g) (reservations db) of
        None \<Rightarrow> (Inl (NoReservationForGuest n g), db)
      | Some reservation \<Rightarrow>
          if role current_user \<noteq> ''admin'' \<and> guest_name reservation \<noteq> username current_user
          then (Inl DeleteNotPermitted, db)
          else
            let db1 = db\<lparr>reservations :=
                        delete_first (\<lambda>r. res_room_number r = n \<and> guest_name r = g) (reservations db)\<rparr>
            in if commit_fails faults 0 then (Inl DeleteServerError, db)
               else
                 let remaining_reservations =
                       length (filter (\<lambda>r. res_room_number r = n) (reservations db1))
                 in if remaining_reservations = 0 then
                      (case get_room db1 n of
                         None \<Rightarrow> (Inr ''available'', db1)
                       | Some room \<Rightarrow>
                           if commit_fails faults 1 then (Inl DeleteServerError, db1)
                           else (Inr ''available'', set_room_status n ''available'' db1))
                    else (Inr ''reserved'', db1))"

section \<open>Stay lifecycle: \<open>main.py\<close>\<close>

text \<open>\<open>create_reservation\<close> of \<open>main.py\<close>; the result is the \<open>reservation_id\<close>.\<close>

definition main_create_reservation ::
  "bool list \<Rightarrow> reservation_schema \<Rightarrow> database \<Rightarrow> (error + nat) \<times> database" where
  "main_create_reservation faults rq db =
     (if rq_room_number rq = [] \<or> rq_guest_name rq = [] then (Inl RoomAndGuestRequired, db)
      else case get_room db (rq_room_number rq) of
        None \<Rightarrow> (Inl RoomNotFound, db)
      | Some room \<Rightarrow>
          if status room \<noteq> ''available''
          then (Inl (NotAvailableForReservation (rq_room_number rq)), db)
          else
            (case find (\<lambda>r. res_room_number r = rq_room_number rq \<and>
                              arrival_date r \<le> rq_departure_date rq \<and>
                              departure_date r \<ge> rq_arrival_date rq) (reservations db) of
               Some existing_reservation \<Rightarrow> (Inl ReservationAlreadyExists, db)
             | None \<Rightarrow>
                 let nr = new_reservation db rq ''reserved'';
                     db1 = add_reservation nr db
                 in if commit_fails faults 0 then (Inl ServerError, db)
                    else
                      let db2 = set_room_status (rq_room_number rq) ''reserved'' db1
                      in if commit_fails faults 1 then (Inl ServerError, db1)
                         else (Inr (res_id nr), db2)))"

text \<open>\<open>check_in_guest\<close>: the room's status is the only gate.\<close>

definition check_in_guest ::
  "bool list \<Rightarrow> reservation_schema \<Rightarrow> database \<Rightarrow> (error + reservation) \<times> database" where
  "check_in_guest faults rq db =
     (case get_room db (rq_room_number rq) of
        None \<Rightarrow> (Inl RoomNotFound, db)
      | Some room \<Rightarrow>
          if status room \<noteq> ''available'' then (Inl NotAvailableForCheckIn, db)
          else
            let nr = new_reservation db rq ''checked-in'';
                db1 = add_reservation nr db
            in if commit_fails faults 0 then (Inl ServerError, db)
               else
                 let db2 = set_room_status (rq_room_number rq) ''checked-in'' db1
                 in if commit_fails faults 1 then (Inl ServerError, db1)
                    else (Inr nr, db2))"

definition check_out_guest ::
  "bool list \<Rightarrow> string \<Rightarrow> database \<Rightarrow> (error + reservation) \<times> database" where
  "check_out_guest faults n db =
     (case get_room db n of
        None \<Rightarrow> (Inl RoomNotFound, db)
      | Some room \<Rightarrow>
         (case find (\<lambda>r. res_room_number r = n \<and> res_status r = ''checked-in'') (reservations db) of
            None \<Rightarrow> (Inl (NotCheckedIn n), db)
          | Some reservation \<Rightarrow>
              let db1 = db\<lparr>reservations :=
                          update_first (\<lambda>r. res_room_number r = n \<and> res_status r = ''checked-in'')
                            (\<lambda>r. r\<lparr>res_status := ''checked-out''\<rparr>) (reservations db)\<rparr>
              in if commit_fails faults 0 then (Inl ServerError, db)
                 else
                   let db2 = set_room_status n ''available'' db1
                   in if commit_fails faults 1 then (Inl ServerError, db1)
                      else (Inr (reservation\<lparr>res_status := ''checked-out''\<rparr>), db2)))"

text \<open>
  \<open>cancel_reservation\<close>: admins only. The room is committed first, and only when its
  status is \<open>reserved\<close>; the deletion is the handler's next commit.
\<close>

definition cancel_reservation ::
  "bool list \<Rightarrow> user \<Rightarrow> string \<Rightarrow> database \<Rightarrow> (error + unit) \<times> database" where
  "cancel_reservation faults current_user n db =
     (if role current_user \<noteq> ''admin'' then (Inl CancelNotPermitted, db)
      else case find (\<lambda>r. res_room_number r = n) (reservations db) of
        None \<Rightarrow> (Inl NoReservationForRoom, db)
      | Some reservation \<Rightarrow>
          let reserved = (case get_room db n of None \<Rightarrow> False
                          | Some room \<Rightarrow> status room = ''reserved'');
              db1 = (if reserved then set_room_status n ''available'' db else db);
              k = (if reserved then 1 else 0)
          in if reserved \<and> commit_fails faults 0 then (Inl ServerError, db)
             else
               let db2 = db1\<lparr>reservations :=
                           delete_first (\<lambda>r. res_room_number r = n) (reservations db1)\<rparr>
               in if commit_fails faults k then (Inl ServerError, db1)
                  else (Inr (), db2))"

section \<open>Payment ledger: \<open>app/payments/router.py\<close>\<close>

record payment_create_schema =
  pc_amount_paid :: pyfloat
  pc_discount_allowed :: "pyfloat option"
  pc_payment_method :: string
  pc_payment_date :: datetime
  pc_booking_cost :: "pyfloat option"

text \<open>Python's \<open>x or 0\<close> on an optional float: \<open>None\<close> and \<open>0.0\<close> are falsy, a NaN is not.\<close>

definition or0 :: "pyfloat option \<Rightarrow> pyfloat" where
  "or0 x = (case x of None \<Rightarrow> Finite 0 | Some v \<Rightarrow> if v = Finite 0 then Finite 0 else v)"

definition tz_missing :: "datetime \<Rightarrow> bool" where
  "tz_missing t = (case t of Naive i \<Rightarrow> True | Aware i \<Rightarrow> False)"

definition instant :: "datetime \<Rightarrow> int" where
  "instant t = (case t of Naive i \<Rightarrow> i | Aware i \<Rightarrow> i)"

definition next_pay_id :: "database \<Rightarrow> nat" where
  "next_pay_id db = Suc (foldr max (map pay_id (payments db)) 0)"

text \<open>
  Modelled from the spec: \<open>crud.create_payment\<close> and \<open>crud.get_payment_by_id\<close> are in
  \<open>app/payments/crud.py\<close>, which is not among the sources. Section 3 of the specification
  lists what a payment stores: the owning booking, the amount paid, the discount allowed,
  the method, the timestamp, the status, the balance due computed at creation and the
  booking cost snapshot. The new row is built from exactly the arguments the router passes.
\<close>

definition crud_create_payment ::
  "database \<Rightarrow> payment_create_schema \<Rightarrow> nat \<Rightarrow> pyfloat \<Rightarrow> string \<Rightarrow> payment" where
  "crud_create_payment db p booking_id bal st =
     \<lparr>pay_id = next_pay_id db, pay_booking_id = booking_id, amount_paid = pc_amount_paid p,
      discount_allowed = pc_discount_allowed p, payment_method = pc_payment_method p,
      payment_date = pc_payment_date p, balance_due = bal, pay_status = st,
      pay_booking_cost = pc_booking_cost p\<rparr>"

definition get_payment_by_id :: "database \<Rightarrow> nat \<Rightarrow> payment option" where
  "get_payment_by_id db i = find (\<lambda>p. pay_id p = i) (payments db)"

text \<open>The non-voided payments of a booking, and what they add up to.\<close>

definition existing_payments :: "database \<Rightarrow> nat \<Rightarrow> payment list" where
  "existing_payments db booking_id =
     filter (\<lambda>p. pay_booking_id p = booking_id \<and> pay_status p \<noteq> ''voided'') (payments db)"

definition total_existing_payment :: "database \<Rightarrow> nat \<Rightarrow> pyfloat" where
  "total_existing_payment db booking_id =
     pysum (map (\<lambda>p. fadd (amount_paid p) (or0 (discount_allowed p)))
              (existing_payments db booking_id))"

text \<open>The running total with the new payment added: amount first, then discount.\<close>

definition new_total_payment :: "database \<Rightarrow> nat \<Rightarrow> payment_create_schema \<Rightarrow> pyfloat" where
  "new_total_payment db booking_id rq =
     fadd (fadd (total_existing_payment db booking_id) (pc_amount_paid rq))
          (or0 (pc_discount_allowed rq))"

text \<open>
  \<open>create_payment\<close>. \<open>now\<close> is \<open>datetime.now(timezone.utc)\<close>. The total due is a product
  of integers; Python compares a float with an integer exactly, and converts the integer to
  a float to subtract. The new row is written by \<open>crud.create_payment\<close> (commit 0, as the
  \<open>crud\<close> functions of this repository commit what they add); the booking's
  \<open>payment_status\<close> is the router's own commit (commit 1).
\<close>

definition create_payment ::
  "bool list \<Rightarrow> int \<Rightarrow> nat \<Rightarrow> payment_create_schema \<Rightarrow> database \<Rightarrow> (error + payment) \<times> database" where
  "create_payment faults now booking_id rq db =
     (if tz_missing (pc_payment_date rq) then (Inl PaymentDateWithoutTimezone, db)
      else if instant (pc_payment_date rq) > now
        then (Inl (PaymentDateInFuture (pc_payment_date rq)), db)
      else case find (\<lambda>b. bk_id b = booking_id) (bookings db) of
        None \<Rightarrow> (Inl (BookingNotFound booking_id), db)
      | Some booking_record \<Rightarrow>
         (case get_room db (bk_room_number booking_record) of
            None \<Rightarrow> (Inl (RoomDoesNotExist (bk_room_number booking_record)), db)
          | Some room \<Rightarrow>
              if bk_status booking_record \<notin> set [''checked-in'', ''reserved'']
              then (Inl (BookingNotPayable booking_id), db)
              else
                let num_days = number_of_days booking_record;
                    total_due = num_days * amount room;
                    new_total = new_total_payment db booking_id rq;
                    effective_total_due = total_due
                in if fgt new_total (Finite (of_int effective_total_due))
                   then (Inl (PaymentExceedsTotalDue effective_total_due), db)
                   else
                     (case float_of_int effective_total_due of
                        None \<Rightarrow> (Inl UnhandledOverflowError, db)
                      | Some due \<Rightarrow>
                          let balance = pymax (fsub due new_total) (Finite 0);
                              st = (if fgt balance (Finite 0) then ''payment incomplete''
                                    else ''payment completed'');
                              new_payment = crud_create_payment db
                                (rq\<lparr>pc_booking_cost := bk_booking_cost booking_record\<rparr>)
                                booking_id balance st;
                              db1 = db\<lparr>payments := payments db @ [new_payment]\<rparr>
                          in if commit_fails faults 0 then (Inl CreatePaymentError, db)
                             else
                               let db2 = db1\<lparr>bookings :=
                                           update_first (\<lambda>b. bk_id b = booking_id)
                                             (\<lambda>b. b\<lparr>payment_status := st\<rparr>) (bookings db1)\<rparr>
                               in if commit_fails faults 1 then (Inl CreatePaymentError, db1)
                                  else (Inr new_payment, db2))))"

text \<open>\<open>void_payment\<close>; the result is the \<open>payment_id\<close> and \<open>status\<close> of the response.\<close>

definition void_payment ::
  "bool list \<Rightarrow> user \<Rightarrow> nat \<Rightarrow> database \<Rightarrow> (error + nat \<times> string) \<times> database" where
  "void_payment faults current_user payment_id db =
     (if role current_user \<noteq> ''admin'' then (Inl InsufficientPermissions, db)
      else case get_payment_by_id db payment_id of
        None \<Rightarrow> (Inl (PaymentNotFound payment_id), db)
      | Some payment \<Rightarrow>
          let db1 = db\<lparr>payments :=
                      update_first (\<lambda>p. pay_id p = payment_id)
                        (\<lambda>p. p\<lparr>pay_status := ''voided''\<rparr>) (payments db)\<rparr>
          in if commit_fails faults 0 then (Inl VoidPaymentError, db)
             else (Inr (pay_id payment, ''voided''), db1))"

section \<open>Consistency of the stays\<close>

text \<open>
  An active stay is reserved or checked-in. Two stays conflict when both are active, they
  are for the same room and their intervals overlap. The stays are consistent when no two
  rows of the table conflict.
\<close>

definition active :: "reservation \<Rightarrow> bool" where
  "active r = (res_status r = ''reserved'' \<or> res_status r = ''checked-in'')"

definition conflict :: "reservation \<Rightarrow> reservation \<Rightarrow> bool" where
  "conflict x y =
     (active x \<and> active y \<and> res_room_number x = res_room_number y \<and>
      overlaps (arrival_date x) (departure_date x) (arrival_date y) (departure_date y))"

fun non_overlapping :: "reservation list \<Rightarrow> bool" where
  "non_overlapping [] = True"
| "non_overlapping (x # xs) = (list_all (\<lambda>y. \<not> conflict x y) xs \<and> non_overlapping xs)"

text \<open>The room of an active stay, when it exists, is not \<open>available\<close>.\<close>

definition status_coherent :: "database \<Rightarrow> bool" where
  "status_coherent db =
     list_all (\<lambda>r. active r \<longrightarrow>
                 (case get_room db (res_room_number r) of
                    None \<Rightarrow> True
                  | Some room \<Rightarrow> status room \<noteq> ''available''))
       (reservations db)"

text \<open>Whether any active stay remains for a room.\<close>

definition active_stay_remains :: "database \<Rightarrow> string \<Rightarrow> bool" where
  "active_stay_remains db n = list_ex (\<lambda>r. res_room_number r = n \<and> active r) (reservations db)"

text \<open>
  A sequence of requests to \<open>create_reservation\<close> (reservations router) and
  \<open>check_in_guest\<close>, each with the faults of its own commits.
\<close>

datatype operation =
    CreateReservation "bool list" date reservation_schema
  | CheckIn "bool list" reservation_schema

fun apply_operation :: "operation \<Rightarrow> database \<Rightarrow> database" where
  "apply_operation (CreateReservation faults today rq) db = snd (create_reservation faults today rq db)"
| "apply_operation (CheckIn faults rq) db = snd (check_in_guest faults rq db)"

fun second_commit_fails :: "operation \<Rightarrow> bool" where
  "second_commit_fails (CreateReservation faults today rq) = commit_fails faults 1"
| "second_commit_fails (CheckIn faults rq) = commit_fails faults 1"

fun run :: "operation list \<Rightarrow> database \<Rightarrow> database" where
  "run [] db = db"
| "run (x # xs) db = run xs (apply_operation x db)"

section \<open>Example data\<close>

definition room_101 :: "string \<Rightarrow> room" where
  "room_101 s = \<lparr>room_number = ''101'', room_type = ''standard'', amount = 100, status = s\<rparr>"

definition stay :: "nat \<Rightarrow> string \<Rightarrow> date \<Rightarrow> date \<Rightarrow> string \<Rightarrow> reservation" where
  "stay i g a d s =
     \<lparr>res_id = i, res_room_number = ''101'', guest_name = g, arrival_date = a,
      departure_date = d, res_status = s\<rparr>"

definition request :: "string \<Rightarrow> date \<Rightarrow> date \<Rightarrow> reservation_schema" where
  "request g a d =
     \<lparr>rq_room_number = ''101'', rq_guest_name = g, rq_arrival_date = a, rq_departure_date = d\<rparr>"

definition hotel :: "string \<Rightarrow> reservation list \<Rightarrow> database" where
  "hotel s rs = \<lparr>rooms = [room_101 s], reservations = rs, bookings = [], payments = []\<rparr>"

definition guest_bob :: user where
  "guest_bob = \<lparr>username = ''bob'', role = ''user''\<rparr>"

definition admin :: user where
  "admin = \<lparr>username = ''root'', role = ''admin''\<rparr>"

text \<open>A stay of three nights in room 101, at 100 a night.\<close>

definition booking_1 :: booking where
  "booking_1 = \<lparr>bk_id = 1, bk_room_number = ''101'', number_of_days = 3,
     bk_status = ''checked-in'', payment_status = ''pending'',
     bk_booking_cost = Some (Finite 300)\<rparr>"

definition ledger :: "payment list \<Rightarrow> database" where
  "ledger ps = \<lparr>rooms = [room_101 ''checked-in''], reservations = [],
     bookings = [booking_1], payments = ps\<rparr>"

definition pay_request :: "pyfloat \<Rightarrow> payment_create_schema" where
  "pay_request a = \<lparr>pc_amount_paid = a, pc_discount_allowed = Some (Finite 0),
     pc_payment_method = ''cash'', pc_payment_date = Aware 10, pc_booking_cost = None\<rparr>"

definition paid :: "nat \<Rightarrow> pyfloat \<Rightarrow> pyfloat \<Rightarrow> string \<Rightarrow> payment" where
  "paid i a bal st = \<lparr>pay_id = i, pay_booking_id = 1, amount_paid = a,
     discount_allowed = Some (Finite 0), payment_method = ''cash'', payment_date = Aware 10,
     balance_due = bal, pay_status = st, pay_booking_cost = Some (Finite 300)\<rparr>"

text \<open>The double nearest to \<open>1e-20\<close>.\<close>

definition tiny :: rat where
  "tiny = 6646139978924579 / 2 ^ 119"

section \<open>Lemmas about the store\<close>

lemmas example_defs = room_101_def stay_def request_def hotel_def

lemmas ledger_defs = booking_1_def ledger_def pay_request_def paid_def room_101_def

lemmas create_payment_eval = create_payment_def get_room_def tz_missing_def instant_def
  new_total_payment_def total_existing_payment_def existing_payments_def pysum_def or0_def
  float_of_int_def fsub_def pymax_def crud_create_payment_def next_pay_id_def
  commit_fails_def Let_def

lemmas round64_eval = round64_def ilog2_def bit_length.simps pow2_def round_half_even_def Let_def

text \<open>Small whole amounts are doubles, and adding them is exact.\<close>

lemma round64_small:
  "round64 0 = Finite 0" "round64 50 = Finite 50" "round64 100 = Finite 100"
  "round64 200 = Finite 200" "round64 300 = Finite 300" "round64 350 = Finite 350"
  by (simp_all add: round64_eval)

text \<open>
  Rounding is visible in both directions: \<open>300.0 + 1e-20\<close> is \<open>300.0\<close>, and the doubles
  of \<open>140.4\<close>, \<open>136.3\<close> and \<open>23.3\<close> add up to more than 300.
\<close>

lemma round64_absorbs:
  "round64 (1 / 10 ^ 20) = Finite tiny"
  "round64 (300 + tiny) = Finite 300"
  by code_simp+

lemma round64_exceeds:
  "round64 (1404 / 10) = Finite (4939885841272013 / 2 ^ 45)"
  "round64 (1363 / 10) = Finite (2397814957853901 / 2 ^ 44)"
  "round64 (233 / 10) = Finite (6558366957358285 / 2 ^ 48)"
  "fadd (Finite (4939885841272013 / 2 ^ 45)) (Finite (2397814957853901 / 2 ^ 44)) =
     Finite (1216939469622477 / 2 ^ 42)"
  "fadd (Finite (1216939469622477 / 2 ^ 42)) (Finite (6558366957358285 / 2 ^ 48)) =
     Finite (5277655813324801 / 2 ^ 44)"
  "fgt (Finite (5277655813324801 / 2 ^ 44)) (Finite 300)"
  by code_simp+

text \<open>The status test \<open>balance_due > 0\<close> on a balance that is a \<open>max\<close> with 0.\<close>

lemma pymax_zero_status:
  "(\<not> fgt (pymax x (Finite 0)) (Finite 0)) =
   (pymax x (Finite 0) = Finite 0 \<or> pymax x (Finite 0) = NaN)"
  by (cases x) (auto simp: pymax_def)

lemma get_room_reservations_update [simp]:
  "get_room (db\<lparr>reservations := rs\<rparr>) m = get_room db m"
  by (simp add: get_room_def)

lemma find_update_first_same:
  "(\<And>x. P (f x) = P x) \<Longrightarrow> find P (update_first P f xs) = map_option f (find P xs)"
  by (induction xs) auto

lemma find_update_first_other:
  "(\<And>x. P x \<Longrightarrow> \<not> Q x) \<Longrightarrow> (\<And>x. Q (f x) = Q x) \<Longrightarrow>
   find Q (update_first P f xs) = find Q xs"
  by (induction xs) auto

lemma update_first_idem:
  "(\<And>x. P (f x) = P x) \<Longrightarrow> (\<And>x. f (f x) = f x) \<Longrightarrow>
   update_first P f (update_first P f xs) = update_first P f xs"
  by (induction xs) auto

lemma get_room_set_room_status:
  "get_room (set_room_status n s db) m =
     (if m = n then map_option (\<lambda>r. r\<lparr>status := s\<rparr>) (get_room db n) else get_room db m)"
proof (cases "m = n")
  case True
  then show ?thesis
    by (simp add: get_room_def set_room_status_def find_update_first_same)
next
  case False
  then have "find (\<lambda>r. room_number r = m)
               (update_first (\<lambda>r. room_number r = n) (\<lambda>r. r\<lparr>status := s\<rparr>) (rooms db)) =
             find (\<lambda>r. room_number r = m) (rooms db)"
    by (intro find_update_first_other) auto
  with False show ?thesis
    by (simp add: get_room_def set_room_status_def)
qed

lemma get_room_add_reservation [simp]: "get_room (add_reservation r db) m = get_room db m"
  by (simp add: get_room_def add_reservation_def)

lemma reservations_set_room_status [simp]:
  "reservations (set_room_status n s db) = reservations db"
  by (simp add: set_room_status_def)

lemma reservations_add_reservation [simp]:
  "reservations (add_reservation r db) = reservations db @ [r]"
  by (simp add: add_reservation_def)

lemma new_reservation_fields [simp]:
  "res_room_number (new_reservation db rq st) = rq_room_number rq"
  "arrival_date (new_reservation db rq st) = rq_arrival_date rq"
  "departure_date (new_reservation db rq st) = rq_departure_date rq"
  "res_status (new_reservation db rq st) = st"
  by (simp_all add: new_reservation_def)

section \<open>Non-overlapping stays\<close>

lemma non_overlapping_append:
  "non_overlapping (xs @ [n]) = (non_overlapping xs \<and> list_all (\<lambda>x. \<not> conflict x n) xs)"
  by (induction xs) auto

text \<open>Adding a stay to a room and marking the room keeps the status coherent.\<close>

lemma status_coherent_add:
  assumes "status_coherent db" and "s \<noteq> ''available''"
    and "res_room_number nr = n"
  shows "status_coherent (set_room_status n s (add_reservation nr db))"
  using assms
  by (auto simp: status_coherent_def list_all_iff get_room_set_room_status
           split: option.splits)

text \<open>An available room of a coherent store has no active stay, so nothing to collide with.\<close>

lemma no_conflict_when_available:
  assumes "status_coherent db" and "get_room db n = Some room" and "status room = ''available''"
    and "res_room_number nr = n"
  shows "list_all (\<lambda>x. \<not> conflict x nr) (reservations db)"
  using assms
  by (auto simp: status_coherent_def list_all_iff conflict_def)

lemma no_conflict_when_checked:
  assumes "check_overlapping_check_in db n a d = None"
    and "check_overlapping_reservations db n a d = None"
    and "res_room_number nr = n" "arrival_date nr = a" "departure_date nr = d"
  shows "list_all (\<lambda>x. \<not> conflict x nr) (reservations db)"
  using assms
  by (auto simp: check_overlapping_check_in_def check_overlapping_reservations_def
        find_None_iff list_all_iff conflict_def active_def)

lemma check_in_guest_preserves:
  assumes "non_overlapping (reservations db)" "status_coherent db" "\<not> commit_fails faults 1"
  shows "non_overlapping (reservations (snd (check_in_guest faults rq db))) \<and>
         status_coherent (snd (check_in_guest faults rq db))"
proof (cases "get_room db (rq_room_number rq)")
  case None
  with assms show ?thesis by (simp add: check_in_guest_def)
next
  case (Some room)
  show ?thesis
  proof (cases "status room = ''available'' \<and> \<not> commit_fails faults 0")
    case False
    with Some assms show ?thesis by (auto simp: check_in_guest_def Let_def)
  next
    case True
    let ?nr = "new_reservation db rq ''checked-in''"
    have db': "snd (check_in_guest faults rq db) =
               set_room_status (rq_room_number rq) ''checked-in'' (add_reservation ?nr db)"
      using Some True assms(3) by (simp add: check_in_guest_def Let_def)
    have "list_all (\<lambda>x. \<not> conflict x ?nr) (reservations db)"
      using no_conflict_when_available [OF assms(2) Some] True by simp
    moreover have "status_coherent
        (set_room_status (rq_room_number rq) ''checked-in'' (add_reservation ?nr db))"
      by (rule status_coherent_add [OF assms(2)]) simp_all
    ultimately show ?thesis
      using assms(1) by (simp add: db' non_overlapping_append)
  qed
qed

text \<open>The handler either leaves the store alone or has passed both overlap checks.\<close>

lemma create_reservation_cases:
  "snd (create_reservation faults today rq db) = db \<or>
   (check_overlapping_check_in db (rq_room_number rq)
      (rq_arrival_date rq) (rq_departure_date rq) = None \<and>
    check_overlapping_reservations db (rq_room_number rq)
      (rq_arrival_date rq) (rq_departure_date rq) = None \<and>
    snd (create_reservation faults today rq db) =
      (if commit_fails faults 1 then add_reservation (new_reservation db rq ''reserved'') db
       else set_room_status (rq_room_number rq) ''reserved''
              (add_reservation (new_reservation db rq ''reserved'') db)))"
  by (simp add: create_reservation_def Let_def split: option.splits)

lemma create_reservation_preserves:
  assumes "non_overlapping (reservations db)" "status_coherent db" "\<not> commit_fails faults 1"
  shows "non_overlapping (reservations (snd (create_reservation faults today rq db))) \<and>
         status_coherent (snd (create_reservation faults today rq db))"
proof -
  let ?nr = "new_reservation db rq ''reserved''"
  let ?n = "rq_room_number rq"
  from create_reservation_cases [of faults today rq db] show ?thesis
  proof
    assume "snd (create_reservation faults today rq db) = db"
    with assms show ?thesis by simp
  next
    assume a: "check_overlapping_check_in db ?n (rq_arrival_date rq) (rq_departure_date rq) = None \<and>
      check_overlapping_reservations db ?n (rq_arrival_date rq) (rq_departure_date rq) = None \<and>
      snd (create_reservation faults today rq db) =
        (if commit_fails faults 1 then add_reservation ?nr db
         else set_room_status ?n ''reserved'' (add_reservation ?nr db))"
    then have "list_all (\<lambda>x. \<not> conflict x ?nr) (reservations db)"
      by (intro no_conflict_when_checked
            [of db ?n "rq_arrival_date rq" "rq_departure_date rq"]) simp_all
    moreover have "status_coherent (set_room_status ?n ''reserved'' (add_reservation ?nr db))"
      by (rule status_coherent_add [OF assms(2)]) simp_all
    ultimately show ?thesis
      using a assms(1,3) by (simp add: non_overlapping_append)
  qed
qed

text \<open>
  Claim C1, as the code has it. \<open>check_in_guest\<close> never compares dates: its gate is the
  room's status. So the stays of a room stay pairwise non-overlapping along every sequence
  of \<open>create_reservation\<close> and \<open>check_in_guest\<close> requests that starts in a store where
  the stays do not overlap and no room with an active stay is marked \<open>available\<close>, as long
  as no request loses its second commit (the room's status) to a store failure.
\<close>

theorem run_preserves_non_overlapping:
  assumes "non_overlapping (reservations db)" and "status_coherent db"
    and "\<forall>x \<in> set ops. \<not> second_commit_fails x"
  shows "non_overlapping (reservations (run ops db))"
  using assms
proof (induction ops arbitrary: db)
  case Nil
  then show ?case by simp
next
  case (Cons x ops)
  have "non_overlapping (reservations (apply_operation x db)) \<and>
        status_coherent (apply_operation x db)"
  proof (cases x)
    case (CreateReservation faults today rq)
    with Cons.prems show ?thesis by (simp add: create_reservation_preserves)
  next
    case (CheckIn faults rq)
    with Cons.prems show ?thesis by (simp add: check_in_guest_preserves)
  qed
  with Cons show ?case by simp
qed

text \<open>
  A guest checks in for days 1 to 3, a reservation for days 10 to 12 is accepted, and a
  second check-in is turned away.
\<close>

theorem run_preserves_non_overlapping_witness:
  "non_overlapping (reservations (hotel ''available'' [])) \<and>
   status_coherent (hotel ''available'' []) \<and>
   list_all (\<lambda>x. \<not> second_commit_fails x)
     [CheckIn [] (request ''ann'' 1 3),
      CreateReservation [] 5 (request ''bob'' 10 12),
      CheckIn [] (request ''carl'' 2 4)] \<and>
   non_overlapping (reservations (run
     [CheckIn [] (request ''ann'' 1 3),
      CreateReservation [] 5 (request ''bob'' 10 12),
      CheckIn [] (request ''carl'' 2 4)] (hotel ''available'' [])))"
proof -
  have h1: "non_overlapping (reservations (hotel ''available'' []))"
    by (simp add: hotel_def)
  have h2: "status_coherent (hotel ''available'' [])"
    by (simp add: hotel_def status_coherent_def)
  have h3: "\<forall>x \<in> set [CheckIn [] (request ''ann'' 1 3),
                CreateReservation [] 5 (request ''bob'' 10 12),
                CheckIn [] (request ''carl'' 2 4)]. \<not> second_commit_fails x"
    by (simp add: commit_fails_def)
  from h1 h2 h3 run_preserves_non_overlapping [OF h1 h2 h3] show ?thesis
    by (simp add: list_all_iff)
qed

text \<open>
  Claim C1 as the specification states it fails: the stays of the store below do not
  overlap, room 101 is marked \<open>available\<close> although days 10 to 15 are reserved, and a
  check-in for days 12 to 13 is accepted.
\<close>

theorem check_in_overlap_counterexample:
  "non_overlapping (reservations (hotel ''available'' [stay 1 ''ann'' 10 15 ''reserved''])) \<and>
   \<not> non_overlapping (reservations (run [CheckIn [] (request ''bob'' 12 13)]
        (hotel ''available'' [stay 1 ''ann'' 10 15 ''reserved''])))"
  by (simp add: example_defs check_in_guest_def get_room_def commit_fails_def Let_def
        new_reservation_def next_res_id_def add_reservation_def set_room_status_def
        conflict_def active_def overlaps_def)

section \<open>Order of the conflict checks\<close>

text \<open>
  Claim C7. When the requested range overlaps an active check-in and an active reservation
  of the room, \<open>create_reservation\<close> raises the check-in conflict, with the dates of the
  check-in the first query returned; the reservation query is never reached.
\<close>

theorem check_in_conflict_first:
  assumes "rq_room_number rq \<noteq> []"
    and "rq_arrival_date rq \<le> rq_departure_date rq"
    and "today < rq_arrival_date rq"
    and "get_room db (rq_room_number rq) = Some room"
    and "c \<in> set (reservations db)" "res_room_number c = rq_room_number rq"
        "res_status c = ''checked-in''"
        "overlaps (arrival_date c) (departure_date c) (rq_arrival_date rq) (rq_departure_date rq)"
    and "r \<in> set (reservations db)" "res_room_number r = rq_room_number rq"
        "res_status r = ''reserved''"
        "overlaps (arrival_date r) (departure_date r) (rq_arrival_date rq) (rq_departure_date rq)"
  shows "\<exists>c'. check_overlapping_check_in db (rq_room_number rq)
                 (rq_arrival_date rq) (rq_departure_date rq) = Some c' \<and>
              res_status c' = ''checked-in'' \<and>
              create_reservation faults today rq db =
                (Inl (AlreadyCheckedIn (rq_room_number rq) (arrival_date c') (departure_date c')), db)"
proof -
  let ?P = "\<lambda>x. res_room_number x = rq_room_number rq \<and> res_status x = ''checked-in'' \<and>
              overlaps (arrival_date x) (departure_date x) (rq_arrival_date rq) (rq_departure_date rq)"
  have "\<exists>x\<in>set (reservations db). ?P x" using assms(5-8) by blast
  then obtain c' where f: "find ?P (reservations db) = Some c'"
    by (cases "find ?P (reservations db)") (auto simp: find_None_iff)
  then have "?P c'" by (auto simp: find_Some_iff)
  with f assms(1-4) show ?thesis
    by (simp add: check_overlapping_check_in_def create_reservation_def)
qed

text \<open>
  Room 101 has a guest checked in for days 1 to 10 and a reservation for days 12 to 15; a
  request for days 9 to 13 overlaps both and is answered with the check-in's dates.
\<close>

theorem check_in_conflict_first_witness:
  "create_reservation [] 5 (request ''dora'' 9 13)
     (hotel ''reserved'' [stay 1 ''ann'' 1 10 ''checked-in'', stay 2 ''bob'' 12 15 ''reserved'']) =
   (Inl (AlreadyCheckedIn ''101'' 1 10),
    hotel ''reserved'' [stay 1 ''ann'' 1 10 ''checked-in'', stay 2 ''bob'' 12 15 ''reserved''])"
  using check_in_conflict_first [of "request ''dora'' 9 13" 5
      "hotel ''reserved'' [stay 1 ''ann'' 1 10 ''checked-in'', stay 2 ''bob'' 12 15 ''reserved'']"
      "room_101 ''reserved''" "stay 1 ''ann'' 1 10 ''checked-in''"
      "stay 2 ''bob'' 12 15 ''reserved''" "[]"]
  by (simp add: example_defs get_room_def overlaps_def check_overlapping_check_in_def)

section \<open>The overlap predicate of \<open>main.py\<close>\<close>

text \<open>
  Claim C5. For a request that reaches the duplicate check of \<open>create_reservation\<close> in
  \<open>main.py\<close> (room and guest given, the room found and available), the request is refused
  as conflicting exactly when a stored reservation \<open>[a1, d1]\<close> of the room and the requested
  \<open>[a2, d2]\<close> satisfy \<open>a1 \<le> d2\<close> and \<open>a2 \<le> d1\<close>. The bounds are inclusive: a reservation
  that departs on the day the new one arrives conflicts.
\<close>

theorem main_create_reservation_conflict_iff:
  assumes "rq_room_number rq \<noteq> []" and "rq_guest_name rq \<noteq> []"
    and "get_room db (rq_room_number rq) = Some room" and "status room = ''available''"
  shows "((fst (main_create_reservation faults rq db) = Inl ReservationAlreadyExists) =
          (\<exists>r \<in> set (reservations db). res_room_number r = rq_room_number rq \<and>
             overlaps (arrival_date r) (departure_date r)
               (rq_arrival_date rq) (rq_departure_date rq))) \<and>
         ((\<exists>r \<in> set (reservations db). res_room_number r = rq_room_number rq \<and>
             arrival_date r \<le> departure_date r \<and> departure_date r = rq_arrival_date rq \<and>
             rq_arrival_date rq \<le> rq_departure_date rq) \<longrightarrow>
          fst (main_create_reservation faults rq db) = Inl ReservationAlreadyExists)"
proof -
  let ?P = "\<lambda>r. res_room_number r = rq_room_number rq \<and>
                 arrival_date r \<le> rq_departure_date rq \<and> departure_date r \<ge> rq_arrival_date rq"
  have iff: "(fst (main_create_reservation faults rq db) = Inl ReservationAlreadyExists) =
             (\<exists>r \<in> set (reservations db). ?P r)"
  proof (cases "find ?P (reservations db)")
    case None
    then have "\<not> (\<exists>r \<in> set (reservations db). ?P r)" by (simp add: find_None_iff)
    moreover from None assms
    have "fst (main_create_reservation faults rq db) \<noteq> Inl ReservationAlreadyExists"
      by (simp add: main_create_reservation_def Let_def)
    ultimately show ?thesis by simp
  next
    case (Some e)
    then have "?P e \<and> e \<in> set (reservations db)"
      by (auto simp: find_Some_iff)
    moreover from Some assms
    have "fst (main_create_reservation faults rq db) = Inl ReservationAlreadyExists"
      by (simp add: main_create_reservation_def)
    ultimately show ?thesis by auto
  qed
  show ?thesis
    unfolding iff by (auto simp: overlaps_def)
qed

text \<open>A stay of days 1 to 5 and a request for days 5 to 8.\<close>

theorem main_create_reservation_conflict_iff_witness:
  "fst (main_create_reservation [] (request ''bob'' 5 8)
          (hotel ''available'' [stay 1 ''ann'' 1 5 ''checked-out''])) =
     Inl ReservationAlreadyExists \<and>
   overlaps 1 5 5 8"
  using main_create_reservation_conflict_iff [of "request ''bob'' 5 8"
      "hotel ''available'' [stay 1 ''ann'' 1 5 ''checked-out'']" "room_101 ''available''" "[]"]
  by (simp add: example_defs get_room_def overlaps_def)

section \<open>The room's status in \<open>create_reservation\<close>\<close>

text \<open>
  Claim C9. For a room that exists and is not under maintenance, and with the store
  accepting the commits, \<open>create_reservation\<close> of the reservations router accepts a request
  exactly when the request is well-formed (room number given, arrival not after departure,
  arrival after today) and neither overlap query finds a stay. The room's status does not
  occur in the condition, so a room that is \<open>reserved\<close> or \<open>checked-in\<close> accepts a
  reservation for a free range of future days.
\<close>

theorem create_reservation_ignores_room_status:
  assumes "get_room db (rq_room_number rq) = Some room" and "status room \<noteq> ''maintenance''"
    and "\<not> commit_fails faults 0" and "\<not> commit_fails faults 1"
  shows "(\<exists>nr db'. create_reservation faults today rq db = (Inr nr, db')) =
         (rq_room_number rq \<noteq> [] \<and> rq_arrival_date rq \<le> rq_departure_date rq \<and>
          today < rq_arrival_date rq \<and>
          check_overlapping_check_in db (rq_room_number rq)
            (rq_arrival_date rq) (rq_departure_date rq) = None \<and>
          check_overlapping_reservations db (rq_room_number rq)
            (rq_arrival_date rq) (rq_departure_date rq) = None)"
  using assms
  by (auto simp: create_reservation_def Let_def split: option.splits)

text \<open>Room 101 is checked-in for days 1 to 3 and takes a reservation for days 10 to 12.\<close>

theorem create_reservation_ignores_room_status_witness:
  "\<exists>nr db'. create_reservation [] 5 (request ''bob'' 10 12)
      (hotel ''checked-in'' [stay 1 ''ann'' 1 3 ''checked-in'']) = (Inr nr, db')"
  using create_reservation_ignores_room_status [of
      "hotel ''checked-in'' [stay 1 ''ann'' 1 3 ''checked-in'']" "request ''bob'' 10 12"
      "room_101 ''checked-in''" "[]" 5]
  by (simp add: example_defs get_room_def overlaps_def commit_fails_def
        check_overlapping_check_in_def check_overlapping_reservations_def)

section \<open>The room's status after check-out and cancellation\<close>

text \<open>
  Claim C4, as the code has it. A successful \<open>check_out_guest\<close> leaves the room
  \<open>available\<close>, whatever stays remain: it does not scan them. A successful
  \<open>delete_reservation\<close> counts the rows that remain for the room, of any status: with none
  left the room, if it exists, is \<open>available\<close>; otherwise the rooms are as they were.
\<close>

theorem room_status_after_check_out_and_delete:
  "(check_out_guest faults n db = (Inr r, db') \<longrightarrow>
      map_option status (get_room db' n) = Some ''available'') \<and>
   (delete_reservation faults' u n g db = (Inr rs, db'') \<longrightarrow>
      (if list_ex (\<lambda>x. res_room_number x = n) (reservations db'')
       then rooms db'' = rooms db \<and> rs = ''reserved''
       else map_option status (get_room db'' n) \<in> {None, Some ''available''} \<and>
            rs = ''available''))"
proof
  show "check_out_guest faults n db = (Inr r, db') \<longrightarrow>
      map_option status (get_room db' n) = Some ''available''"
    by (auto simp: check_out_guest_def Let_def get_room_set_room_status
          split: option.splits if_splits)
next
  have len: "(length (filter (\<lambda>r. res_room_number r = n) xs) = 0) =
             (\<not> list_ex (\<lambda>x. res_room_number x = n) xs)" for xs :: "reservation list"
    by (simp add: list_ex_iff filter_empty_conv)
  show "delete_reservation faults' u n g db = (Inr rs, db'') \<longrightarrow>
      (if list_ex (\<lambda>x. res_room_number x = n) (reservations db'')
       then rooms db'' = rooms db \<and> rs = ''reserved''
       else map_option status (get_room db'' n) \<in> {None, Some ''available''} \<and>
            rs = ''available'')"
    unfolding delete_reservation_def Let_def len
    by (auto simp: get_room_set_room_status split: option.splits if_splits)
qed

text \<open>
  A guest checks out of room 101; and a reservation is deleted from a room whose other
  stay is checked out, which leaves the room \<open>reserved\<close>.
\<close>

theorem room_status_after_check_out_and_delete_witness:
  "check_out_guest [] ''101'' (hotel ''checked-in'' [stay 1 ''ann'' 1 3 ''checked-in'']) =
     (Inr (stay 1 ''ann'' 1 3 ''checked-out''),
      hotel ''available'' [stay 1 ''ann'' 1 3 ''checked-out'']) \<and>
   map_option status
     (get_room (hotel ''available'' [stay 1 ''ann'' 1 3 ''checked-out'']) ''101'') =
     Some ''available'' \<and>
   delete_reservation [] admin ''101'' ''bob''
       (hotel ''reserved'' [stay 1 ''ann'' 1 3 ''checked-out'', stay 2 ''bob'' 10 12 ''reserved'']) =
     (Inr ''reserved'', hotel ''reserved'' [stay 1 ''ann'' 1 3 ''checked-out'']) \<and>
   rooms (hotel ''reserved'' [stay 1 ''ann'' 1 3 ''checked-out'']) =
   rooms (hotel ''reserved'' [stay 1 ''ann'' 1 3 ''checked-out'', stay 2 ''bob'' 10 12 ''reserved''])"
proof -
  have e1: "check_out_guest [] ''101'' (hotel ''checked-in'' [stay 1 ''ann'' 1 3 ''checked-in'']) =
     (Inr (stay 1 ''ann'' 1 3 ''checked-out''),
      hotel ''available'' [stay 1 ''ann'' 1 3 ''checked-out''])"
    by (simp add: example_defs check_out_guest_def get_room_def commit_fails_def Let_def
          set_room_status_def)
  have e2: "delete_reservation [] admin ''101'' ''bob''
       (hotel ''reserved'' [stay 1 ''ann'' 1 3 ''checked-out'', stay 2 ''bob'' 10 12 ''reserved'']) =
     (Inr ''reserved'', hotel ''reserved'' [stay 1 ''ann'' 1 3 ''checked-out''])"
    by (simp add: example_defs admin_def delete_reservation_def get_room_def commit_fails_def
          Let_def set_room_status_def)
  have c1: "map_option status
     (get_room (hotel ''available'' [stay 1 ''ann'' 1 3 ''checked-out'']) ''101'') =
     Some ''available''"
    using room_status_after_check_out_and_delete
      [where faults = "[]" and n = "''101''"
         and db = "hotel ''checked-in'' [stay 1 ''ann'' 1 3 ''checked-in'']"
         and r = "stay 1 ''ann'' 1 3 ''checked-out''"
         and db' = "hotel ''available'' [stay 1 ''ann'' 1 3 ''checked-out'']"]
      e1 by blast
  have c2: "rooms (hotel ''reserved'' [stay 1 ''ann'' 1 3 ''checked-out'']) =
    rooms (hotel ''reserved'' [stay 1 ''ann'' 1 3 ''checked-out'', stay 2 ''bob'' 10 12 ''reserved''])"
    using room_status_after_check_out_and_delete
      [where faults' = "[]" and u = admin and n = "''101''" and g = "''bob''"
         and db = "hotel ''reserved''
                     [stay 1 ''ann'' 1 3 ''checked-out'', stay 2 ''bob'' 10 12 ''reserved'']"
         and rs = "''reserved''"
         and db'' = "hotel ''reserved'' [stay 1 ''ann'' 1 3 ''checked-out'']"]
      e2 by (simp add: example_defs)
  from e1 e2 c1 c2 show ?thesis by blast
qed

text \<open>
  Claim C4 as the specification states it fails: room 101 has a guest checked in for days
  1 to 3 and a reservation for days 10 to 12; after the check-out the room is
  \<open>available\<close> while the reservation, an active stay, remains.
\<close>

theorem check_out_unconditional_counterexample:
  "fst (check_out_guest [] ''101''
       (hotel ''reserved'' [stay 1 ''ann'' 1 3 ''checked-in'', stay 2 ''bob'' 10 12 ''reserved'']))
     = Inr (stay 1 ''ann'' 1 3 ''checked-out'') \<and>
   snd (check_out_guest [] ''101''
       (hotel ''reserved'' [stay 1 ''ann'' 1 3 ''checked-in'', stay 2 ''bob'' 10 12 ''reserved'']))
     = hotel ''available'' [stay 1 ''ann'' 1 3 ''checked-out'', stay 2 ''bob'' 10 12 ''reserved''] \<and>
   active_stay_remains
     (hotel ''available'' [stay 1 ''ann'' 1 3 ''checked-out'', stay 2 ''bob'' 10 12 ''reserved''])
     ''101''"
  by (simp add: example_defs check_out_guest_def get_room_def commit_fails_def Let_def
        set_room_status_def active_stay_remains_def active_def)

section \<open>Who may cancel\<close>

text \<open>
  Claim C8, as the code has it. \<open>delete_reservation\<close> looks the reservation up before it
  looks at the caller: a caller who is neither an admin nor the named guest is refused with
  404 when no reservation matches and with 403 when one does. \<open>cancel_reservation\<close> of
  \<open>main.py\<close> refuses every caller who is not an admin with 403. In each case the store is
  left as it was.
\<close>

theorem cancel_refused_without_change:
  "(role u \<noteq> ''admin'' \<and> username u \<noteq> g \<longrightarrow>
      delete_reservation faults u n g db =
        (Inl (if list_ex (\<lambda>r. res_room_number r = n \<and> guest_name r = g) (reservations db)
              then DeleteNotPermitted else NoReservationForGuest n g), db)) \<and>
   (role u \<noteq> ''admin'' \<longrightarrow> cancel_reservation faults' u n db = (Inl CancelNotPermitted, db)) \<and>
   status_code DeleteNotPermitted = 403 \<and> status_code CancelNotPermitted = 403 \<and>
   status_code (NoReservationForGuest n g) = 404"
proof (intro conjI impI)
  let ?P = "\<lambda>r. res_room_number r = n \<and> guest_name r = g"
  assume a: "role u \<noteq> ''admin'' \<and> username u \<noteq> g"
  show "delete_reservation faults u n g db =
        (Inl (if list_ex ?P (reservations db)
              then DeleteNotPermitted else NoReservationForGuest n g), db)"
  proof (cases "find ?P (reservations db)")
    case None
    then have "\<not> list_ex ?P (reservations db)" by (simp add: find_None_iff list_ex_iff)
    with None show ?thesis by (simp add: delete_reservation_def)
  next
    case (Some e)
    then have "?P e" and "list_ex ?P (reservations db)"
      by (auto simp: find_Some_iff list_ex_iff)
    moreover from a have "g \<noteq> username u" by blast
    ultimately show ?thesis using Some a by (simp add: delete_reservation_def)
  qed
next
  assume "role u \<noteq> ''admin''"
  then show "cancel_reservation faults' u n db = (Inl CancelNotPermitted, db)"
    by (simp add: cancel_reservation_def)
qed simp_all

text \<open>Bob, a regular user, asks to cancel the reservation Ann made for room 101.\<close>

theorem cancel_refused_without_change_witness:
  "delete_reservation [] guest_bob ''101'' ''ann''
       (hotel ''reserved'' [stay 1 ''ann'' 10 12 ''reserved'']) =
     (Inl DeleteNotPermitted, hotel ''reserved'' [stay 1 ''ann'' 10 12 ''reserved'']) \<and>
   cancel_reservation [] guest_bob ''101'' (hotel ''reserved'' [stay 1 ''ann'' 10 12 ''reserved'']) =
     (Inl CancelNotPermitted, hotel ''reserved'' [stay 1 ''ann'' 10 12 ''reserved''])"
  using cancel_refused_without_change [of guest_bob "''ann''" "[]" "''101''"
      "hotel ''reserved'' [stay 1 ''ann'' 10 12 ''reserved'']" "[]"]
  by (simp add: guest_bob_def example_defs)

text \<open>
  Claim C8 as the specification states it fails: Bob asks to cancel a reservation of Ann's
  that does not exist, and the answer is 404, not the permission error.
\<close>

theorem delete_not_found_counterexample:
  "role guest_bob \<noteq> ''admin'' \<and> username guest_bob \<noteq> ''ann'' \<and>
   delete_reservation [] guest_bob ''101'' ''ann'' (hotel ''available'' []) =
     (Inl (NoReservationForGuest ''101'' ''ann''), hotel ''available'' []) \<and>
   status_code (NoReservationForGuest ''101'' ''ann'') = 404"
  by (simp add: guest_bob_def delete_reservation_def example_defs)

section \<open>Two commits per request\<close>

text \<open>
  Claim C2 does not hold of the code. Each handler commits the stay before it touches the
  room, so a store failure at the second commit is rolled back to a store that has the
  stay and the room's old status: here room 101 is still \<open>available\<close> with a guest
  checked in, and with a reservation.
\<close>

theorem second_commit_failure_leaves_stay:
  "check_in_guest [False, True] (request ''ann'' 1 3) (hotel ''available'' []) =
     (Inl ServerError, hotel ''available'' [stay 1 ''ann'' 1 3 ''checked-in'']) \<and>
   create_reservation [False, True] 0 (request ''ann'' 1 3) (hotel ''available'' []) =
     (Inl ServerError, hotel ''available'' [stay 1 ''ann'' 1 3 ''reserved''])"
  by (simp add: example_defs check_in_guest_def create_reservation_def get_room_def
        commit_fails_def Let_def new_reservation_def next_res_id_def add_reservation_def
        check_overlapping_check_in_def check_overlapping_reservations_def)

section \<open>Payment ledger\<close>

text \<open>
  Claim C3, as the code has it. For a payment that passes the checks of date, booking, room
  and booking status: when the total the handler computes, in float arithmetic, from the
  non-voided payments of the booking and the new amount and discount compares greater than
  the total due (nights times the room's rate), \<open>create_payment\<close> raises a 400 whose
  message names the total due, and the store is unchanged; otherwise it does not raise
  that error.
\<close>

theorem create_payment_rejects_overpayment:
  assumes "\<not> tz_missing (pc_payment_date rq)" and "instant (pc_payment_date rq) \<le> now"
    and "find (\<lambda>b. bk_id b = bid) (bookings db) = Some b"
    and "get_room db (bk_room_number b) = Some room"
    and "bk_status b = ''checked-in'' \<or> bk_status b = ''reserved''"
  shows "(if fgt (new_total_payment db bid rq) (Finite (of_int (number_of_days b * amount room)))
          then create_payment faults now bid rq db =
                 (Inl (PaymentExceedsTotalDue (number_of_days b * amount room)), db)
          else fst (create_payment faults now bid rq db) \<noteq>
                 Inl (PaymentExceedsTotalDue (number_of_days b * amount room))) \<and>
         status_code (PaymentExceedsTotalDue (number_of_days b * amount room)) = 400"
  using assms
  by (auto simp: create_payment_def Let_def split: option.splits)

text \<open>Scenario 2: 200 of 300 are paid, and a payment of 150 is refused.\<close>

theorem create_payment_rejects_overpayment_witness:
  "create_payment [] 20 1 (pay_request (Finite 150))
     (ledger [paid 1 (Finite 200) (Finite 100) ''payment incomplete'']) =
     (Inl (PaymentExceedsTotalDue 300),
      ledger [paid 1 (Finite 200) (Finite 100) ''payment incomplete''])"
  using create_payment_rejects_overpayment [of "pay_request (Finite 150)" 20 1
     "ledger [paid 1 (Finite 200) (Finite 100) ''payment incomplete'']" booking_1
     "room_101 ''checked-in''" "[]"]
  by (simp add: ledger_defs get_room_def tz_missing_def instant_def new_total_payment_def
        total_existing_payment_def existing_payments_def pysum_def or0_def round64_small)

text \<open>
  Claim C3 as the specification states it fails: in scenario 2 the new total is 350 and
  the excess is 50, and the amount in the error is the total due, 300.
\<close>

theorem overpayment_names_total_due_counterexample:
  "create_payment [] 20 1 (pay_request (Finite 150))
     (ledger [paid 1 (Finite 200) (Finite 100) ''payment incomplete'']) =
     (Inl (PaymentExceedsTotalDue 300),
      ledger [paid 1 (Finite 200) (Finite 100) ''payment incomplete'']) \<and>
   new_total_payment (ledger [paid 1 (Finite 200) (Finite 100) ''payment incomplete'']) 1
     (pay_request (Finite 150)) = Finite 350 \<and>
   fsub (Finite 350) (Finite 300) = Finite 50 \<and>
   PaymentExceedsTotalDue 300 \<noteq> PaymentExceedsTotalDue 50"
  by (simp add: ledger_defs create_payment_eval round64_small)

text \<open>
  The comparison is one of floats: a payment of \<open>1e-20\<close> on a booking that is paid in full
  leaves the computed total at 300 and is accepted.
\<close>

lemma tiny_payment_accepted:
  "fst (create_payment [] 20 1 (pay_request (Finite tiny))
     (ledger [paid 1 (Finite 300) (Finite 0) ''payment completed''])) =
   Inr (paid 2 (Finite tiny) (Finite 0) ''payment completed'')"
proof -
  have "new_total_payment (ledger [paid 1 (Finite 300) (Finite 0) ''payment completed'']) 1
          (pay_request (Finite tiny)) = Finite 300"
    by (simp add: ledger_defs new_total_payment_def total_existing_payment_def
          existing_payments_def pysum_def or0_def round64_small round64_absorbs)
  then show ?thesis
    by (simp add: create_payment_def)
       (simp add: ledger_defs get_room_def tz_missing_def instant_def float_of_int_def
          fsub_def pymax_def crud_create_payment_def next_pay_id_def commit_fails_def
          round64_small Let_def)
qed

text \<open>
  Claim C6, as the code has it. When \<open>create_payment\<close> succeeds, the payment it has
  appended to the table has \<open>balance_due = max (total due - new total paid) 0\<close>, computed
  in float arithmetic from the total the handler added up; its status is
  \<open>payment incomplete\<close> when that balance is greater than 0 and \<open>payment completed\<close>
  otherwise, that is when the balance is 0 and also when it is a NaN; and the booking
  carries the same status.
\<close>

theorem create_payment_balance_and_status:
  assumes "create_payment faults now bid rq db = (Inr p, db')"
  shows "\<exists>b room due b'.
           find (\<lambda>b. bk_id b = bid) (bookings db) = Some b \<and>
           get_room db (bk_room_number b) = Some room \<and>
           float_of_int (number_of_days b * amount room) = Some due \<and>
           balance_due p = pymax (fsub due (new_total_payment db bid rq)) (Finite 0) \<and>
           pay_status p =
             (if balance_due p = Finite 0 \<or> balance_due p = NaN
              then ''payment completed'' else ''payment incomplete'') \<and>
           payments db' = payments db @ [p] \<and>
           find (\<lambda>b. bk_id b = bid) (bookings db') = Some b' \<and>
           payment_status b' = pay_status p"
proof -
  let ?P = "\<lambda>b. bk_id b = bid"
  let ?new = "new_total_payment db bid rq"
  from assms obtain b room due where b: "find ?P (bookings db) = Some b"
    and room: "get_room db (bk_room_number b) = Some room"
    and due: "float_of_int (number_of_days b * amount room) = Some due"
    by (auto simp: create_payment_def Let_def split: if_splits option.splits)
  let ?bal = "pymax (fsub due ?new) (Finite 0)"
  let ?st = "if fgt ?bal (Finite 0) then ''payment incomplete'' else ''payment completed''"
  let ?p = "crud_create_payment db (rq\<lparr>pc_booking_cost := bk_booking_cost b\<rparr>) bid ?bal ?st"
  from assms b room due have p: "p = ?p"
    and db': "db' = db\<lparr>payments := payments db @ [?p],
                       bookings := update_first ?P (\<lambda>b. b\<lparr>payment_status := ?st\<rparr>) (bookings db)\<rparr>"
    by (auto simp: create_payment_def Let_def split: if_splits)
  have bal: "balance_due p = ?bal" and st: "pay_status p = ?st"
    by (simp_all add: p crud_create_payment_def)
  have st': "pay_status p =
      (if balance_due p = Finite 0 \<or> balance_due p = NaN
       then ''payment completed'' else ''payment incomplete'')"
    unfolding bal st using pymax_zero_status [of "fsub due ?new"] by auto
  have "find ?P (bookings db') = Some (b\<lparr>payment_status := ?st\<rparr>)"
    by (simp add: db' find_update_first_same b)
  with b room due bal st' st show ?thesis
    by (simp add: db' p)
qed

text \<open>Scenario 1: three nights at 100 and a payment of 300.\<close>

theorem create_payment_balance_and_status_witness:
  "create_payment [] 20 1 (pay_request (Finite 300)) (ledger []) =
     (Inr (paid 1 (Finite 300) (Finite 0) ''payment completed''),
      (ledger [paid 1 (Finite 300) (Finite 0) ''payment completed''])
        \<lparr>bookings := [booking_1\<lparr>payment_status := ''payment completed''\<rparr>]\<rparr>) \<and>
   balance_due (paid 1 (Finite 300) (Finite 0) ''payment completed'') = Finite 0"
proof -
  have e: "create_payment [] 20 1 (pay_request (Finite 300)) (ledger []) =
     (Inr (paid 1 (Finite 300) (Finite 0) ''payment completed''),
      (ledger [paid 1 (Finite 300) (Finite 0) ''payment completed''])
        \<lparr>bookings := [booking_1\<lparr>payment_status := ''payment completed''\<rparr>]\<rparr>)"
    by (simp add: ledger_defs create_payment_eval round64_small)
  from create_payment_balance_and_status [OF e] e show ?thesis
    by (simp add: paid_def)
qed

text \<open>
  Claim C6 as the specification states it fails: a payment whose amount is a NaN is
  accepted, its balance is a NaN, which is not 0, and its status is
  \<open>payment completed\<close>.
\<close>

theorem nan_payment_completed_counterexample:
  "create_payment [] 20 1 (pay_request NaN) (ledger []) =
     (Inr (paid 1 NaN NaN ''payment completed''),
      (ledger [paid 1 NaN NaN ''payment completed''])
        \<lparr>bookings := [booking_1\<lparr>payment_status := ''payment completed''\<rparr>]\<rparr>) \<and>
   balance_due (paid 1 NaN NaN ''payment completed'') \<noteq> Finite 0 \<and>
   pay_status (paid 1 NaN NaN ''payment completed'') = ''payment completed''"
  by (simp add: ledger_defs create_payment_eval round64_small)

section \<open>Voiding a payment twice\<close>

text \<open>
  Claim C10. When \<open>void_payment\<close> has succeeded, a second call by the same caller for the
  same payment, its commit accepted, succeeds with the same response and leaves the store,
  and so every row and every sum computed from it, exactly as the first call left it.
\<close>

theorem void_payment_idempotent:
  assumes "void_payment faults u pid db = (Inr res, db1)" and "\<not> commit_fails faults' 0"
  shows "void_payment faults' u pid db1 = (Inr res, db1)"
proof -
  let ?P = "\<lambda>p. pay_id p = pid"
  let ?f = "\<lambda>p. p\<lparr>pay_status := ''voided''\<rparr>"
  from assms(1) obtain p where adm: "role u = ''admin''"
    and p: "find ?P (payments db) = Some p"
    and res: "res = (pay_id p, ''voided'')"
    and db1: "db1 = db\<lparr>payments := update_first ?P ?f (payments db)\<rparr>"
    by (auto simp: void_payment_def get_payment_by_id_def Let_def split: if_splits option.splits)
  have "find ?P (payments db1) = Some (?f p)"
    by (simp add: db1 find_update_first_same p)
  moreover have "update_first ?P ?f (payments db1) = payments db1"
    by (simp add: db1 update_first_idem)
  ultimately show ?thesis
    using adm assms(2) res by (simp add: void_payment_def get_payment_by_id_def db1)
qed

text \<open>The admin voids payment 1, and voids it again.\<close>

theorem void_payment_idempotent_witness:
  "void_payment [] admin 1 (ledger [paid 1 (Finite 300) (Finite 0) ''payment completed'']) =
     (Inr (1, ''voided''), ledger [paid 1 (Finite 300) (Finite 0) ''voided'']) \<and>
   void_payment [] admin 1 (ledger [paid 1 (Finite 300) (Finite 0) ''voided'']) =
     (Inr (1, ''voided''), ledger [paid 1 (Finite 300) (Finite 0) ''voided''])"
proof -
  have e: "void_payment [] admin 1 (ledger [paid 1 (Finite 300) (Finite 0) ''payment completed'']) =
     (Inr (1, ''voided''), ledger [paid 1 (Finite 300) (Finite 0) ''voided''])"
    by (simp add: ledger_defs admin_def void_payment_def get_payment_by_id_def commit_fails_def)
  have f: "\<not> commit_fails [] 0" by (simp add: commit_fails_def)
  from void_payment_idempotent [OF e f] e show ?thesis by simp
qed

end
